theory Spec2Isabelle
  imports
    Complex_Main
    "HOL-Library.List_Lexorder"
    "HOL-Library.Char_ord"
    "HOL-Library.Product_Lexorder"
    "HOL-Library.Sublist"
    "HOL-Library.Log_Nat"
begin

section \<open>Python values, exceptions and the file store\<close>

subsection \<open>Floating point\<close>

text \<open>
  A Python \<^verbatim>\<open>float\<close> is an IEEE 754 binary64 number: a finite value \<open>m * 2^q\<close> with
  \<open>|m| < 2^53\<close> and \<open>-1074 \<le> q\<close>, below \<open>2^1024\<close> in magnitude, or one of
  \<^verbatim>\<open>inf\<close>, \<^verbatim>\<open>-inf\<close>, \<^verbatim>\<open>nan\<close>. A finite value is kept as the rational it denotes;
  \<open>-0.0\<close> is not told apart from \<open>0.0\<close> (Python's \<^verbatim>\<open>==\<close>, \<^verbatim>\<open><=\<close> and \<^verbatim>\<open>bool\<close> do
  not tell them apart either).
\<close>

datatype double = Finite rat | PosInf | NegInf | NaN

definition pow2 :: "int \<Rightarrow> rat" where
  "pow2 k = (if 0 \<le> k then 2 ^ nat k else 1 / 2 ^ nat (- k))"

text \<open>For \<open>r > 0\<close>, \<open>ilog2 r\<close> is the exponent \<open>e\<close> with \<open>2^e \<le> r < 2^(e+1)\<close>.\<close>

definition ilog2 :: "rat \<Rightarrow> int" where
  "ilog2 r =
     (case quotient_of r of (a, b) \<Rightarrow>
        let d = bitlen a - bitlen b in if pow2 d \<le> r then d else d - 1)"

definition round_half_even :: "rat \<Rightarrow> int" where
  "round_half_even x =
     (let f = \<lfloor>x\<rfloor>; d = x - of_int f
      in if d < 1 / 2 then f else if 1 / 2 < d then f + 1 else if even f then f else f + 1)"

text \<open>
  Rounding to nearest, ties to even: a positive rational is rounded to a multiple of
  \<open>2^q\<close>, where \<open>q\<close> leaves 53 significant bits (or is \<open>-1074\<close> for subnormal
  numbers); a result of \<open>2^1024\<close> or more overflows to \<^verbatim>\<open>inf\<close>.
\<close>

definition round_pos :: "rat \<Rightarrow> double" where
  "round_pos r =
     (let q = max (ilog2 r - 52) (- 1074);
          v = of_int (round_half_even (r / pow2 q)) * pow2 q
      in if pow2 1024 \<le> v then PosInf else Finite v)"

fun dneg :: "double \<Rightarrow> double" where
  "dneg (Finite r) = Finite (- r)"
| "dneg PosInf = NegInf"
| "dneg NegInf = PosInf"
| "dneg NaN = NaN"

definition round_double :: "rat \<Rightarrow> double" where
  "round_double r =
     (if r = 0 then Finite 0 else if 0 < r then round_pos r else dneg (round_pos (- r)))"

text \<open>A rational is a \<^verbatim>\<open>float\<close> value when rounding leaves it as it is.\<close>

definition is_double :: "rat \<Rightarrow> bool" where
  "is_double r = (round_double r = Finite r)"

text \<open>\<^verbatim>\<open>x + y\<close> on floats: the exact sum, rounded.\<close>

fun dadd :: "double \<Rightarrow> double \<Rightarrow> double" where
  "dadd (Finite a) (Finite b) = round_double (a + b)"
| "dadd NaN y = NaN"
| "dadd x NaN = NaN"
| "dadd PosInf NegInf = NaN"
| "dadd NegInf PosInf = NaN"
| "dadd PosInf y = PosInf"
| "dadd NegInf y = NegInf"
| "dadd x PosInf = PosInf"
| "dadd x NegInf = NegInf"

text \<open>\<^verbatim>\<open>m <= 0\<close> for a float \<open>m\<close>: every comparison with \<^verbatim>\<open>nan\<close> is false.\<close>

fun dle0 :: "double \<Rightarrow> bool" where
  "dle0 (Finite r) = (r \<le> 0)"
| "dle0 NegInf = True"
| "dle0 PosInf = False"
| "dle0 NaN = False"

subsection \<open>Values\<close>

text \<open>
  The program of \<^verbatim>\<open>app.py\<close> keeps two kinds of JSON documents on disk: the
  credential mapping \<^verbatim>\<open>usuarios.json\<close> and one ledger \<^verbatim>\<open>gastos_<usuario>.json\<close>
  per user. Python is dynamically typed, so the values that \<^verbatim>\<open>json.load\<close> returns and
  that the attributes of a \<^verbatim>\<open>Gasto\<close> hold are modelled by one datatype of JSON-shaped
  values:
  \<^item> \<open>JInt\<close> is a Python \<^verbatim>\<open>int\<close> (unbounded) and \<open>JFloat\<close> a \<^verbatim>\<open>float\<close>;
  \<^item> \<open>JStr\<close> holds a string as its sequence of (UTF-8) bytes; equality is exact,
    and the byte-wise lexicographic order is Python's order by code point;
  \<^item> \<open>JObj\<close> is a \<^verbatim>\<open>dict\<close> with string keys, kept as an association list in
    insertion order, looked up with \<open>map_of\<close>.
  Values carry no object identity.
\<close>

datatype json =
    JNull
  | JBool bool
  | JInt int
  | JFloat double
  | JStr string
  | JArr "json list"
  | JObj "(string \<times> json) list"

text \<open>The exceptions that the modelled code can raise.\<close>

datatype error =
    KeyError string
  | TypeError
  | AttributeError
  | ValueError
  | OverflowError
  | OSError
  | FileNotFoundError
  | PermissionError
  | UnicodeDecodeError
  | JSONDecodeError

text \<open>
  \<^verbatim>\<open>except ValueError\<close> also catches the subclasses of \<^verbatim>\<open>ValueError\<close>.
\<close>

fun is_ValueError :: "error \<Rightarrow> bool" where
  "is_ValueError ValueError = True"
| "is_ValueError UnicodeDecodeError = True"
| "is_ValueError JSONDecodeError = True"
| "is_ValueError _ = False"

text \<open>
  A file that exists either holds a document that \<^verbatim>\<open>json.load\<close> parses to a value, or
  makes \<^verbatim>\<open>open\<close>/\<^verbatim>\<open>json.load\<close> raise the given exception (a directory, an unreadable
  file, bytes that are not UTF-8, text that is not JSON). A path that does not exist is
  \<open>None\<close>. \<^verbatim>\<open>json.dump\<close> followed by \<^verbatim>\<open>json.load\<close> is taken to give back the value
  that was written: the text of a document is not modelled.
\<close>

datatype disk_file = Doc json | Unreadable error

type_synonym fs = "string \<Rightarrow> disk_file option"

text \<open>
  Opening a file for writing: \<open>open_w path = Some e\<close> when \<^verbatim>\<open>open(path, 'w')\<close>
  raises \<open>e\<close> and leaves the files as they are, as for \<^verbatim>\<open>gastos_a/b.json\<close> when there
  is no directory \<^verbatim>\<open>gastos_a\<close> (\<^verbatim>\<open>FileNotFoundError\<close>); \<open>None\<close> when the file can be
  written. The ledger files are named after the user, so this depends on the
  environment and is a parameter. The credential file has the fixed name
  \<^verbatim>\<open>usuarios.json\<close> in the working directory and is taken to be writable. A write
  that fails half way (a full disk) is not modelled.
\<close>

type_synonym open_w = "string \<Rightarrow> error option"

subsection \<open>The Python operations the source applies to loaded values\<close>

text \<open>Truthiness, as used by \<^verbatim>\<open>fecha if fecha else ...\<close>.\<close>

fun truthy :: "json \<Rightarrow> bool" where
  "truthy JNull = False"
| "truthy (JBool b) = b"
| "truthy (JInt i) = (i \<noteq> 0)"
| "truthy (JFloat d) = (d \<noteq> Finite 0)"
| "truthy (JStr s) = (s \<noteq> [])"
| "truthy (JArr xs) = (xs \<noteq> [])"
| "truthy (JObj kvs) = (kvs \<noteq> [])"

text \<open>\<^verbatim>\<open>data[k]\<close> for a string \<open>k\<close>: only a dict can be subscripted by a string.\<close>

fun py_getitem :: "json \<Rightarrow> string \<Rightarrow> error + json" where
  "py_getitem (JObj kvs) k =
     (case map_of kvs k of None \<Rightarrow> Inl (KeyError k) | Some v \<Rightarrow> Inr v)"
| "py_getitem _ k = Inl TypeError"

text \<open>\<^verbatim>\<open>d.get(k)\<close>: only a dict has the method; a missing key gives \<^verbatim>\<open>None\<close>.\<close>

fun py_get :: "json \<Rightarrow> string \<Rightarrow> error + json" where
  "py_get (JObj kvs) k = Inr (case map_of kvs k of None \<Rightarrow> JNull | Some v \<Rightarrow> v)"
| "py_get _ k = Inl AttributeError"

text \<open>
  \<^verbatim>\<open>k in c\<close> for a string \<open>k\<close>: key membership in a dict, element membership in a
  list, the substring test on a string; the other values are not containers.
\<close>

fun py_contains :: "json \<Rightarrow> string \<Rightarrow> error + bool" where
  "py_contains (JObj kvs) k = Inr (k \<in> set (map fst kvs))"
| "py_contains (JArr xs) k = Inr (JStr k \<in> set xs)"
| "py_contains (JStr s) k = Inr (sublist k s)"
| "py_contains _ k = Inl TypeError"

text \<open>
  \<^verbatim>\<open>d[k] = v\<close> on a dict: an existing key keeps its position, a new key goes to the
  end.
\<close>

fun dict_setitem :: "(string \<times> json) list \<Rightarrow> string \<Rightarrow> json \<Rightarrow> (string \<times> json) list" where
  "dict_setitem [] k v = [(k, v)]"
| "dict_setitem ((k', v') # kvs) k v =
     (if k' = k then (k, v) # kvs else (k', v') # dict_setitem kvs k v)"

fun py_setitem :: "json \<Rightarrow> string \<Rightarrow> json \<Rightarrow> error + json" where
  "py_setitem (JObj kvs) k v = Inr (JObj (dict_setitem kvs k v))"
| "py_setitem _ k v = Inl TypeError"

text \<open>
  \<^verbatim>\<open>for d in datos\<close>: the elements of a list, the keys of a dict, the characters of a
  string (one-character strings; a character outside ASCII appears here as its bytes);
  the other values are not iterable.
\<close>

fun py_iter :: "json \<Rightarrow> error + json list" where
  "py_iter (JArr xs) = Inr xs"
| "py_iter (JObj kvs) = Inr (map (\<lambda>kv. JStr (fst kv)) kvs)"
| "py_iter (JStr s) = Inr (map (\<lambda>c. JStr [c]) s)"
| "py_iter _ = Inl TypeError"

subsection \<open>Numbers\<close>

text \<open>
  The numbers are \<^verbatim>\<open>int\<close>, \<^verbatim>\<open>float\<close> and \<^verbatim>\<open>bool\<close>: \<^verbatim>\<open>bool\<close> is a subclass of
  \<^verbatim>\<open>int\<close>, so \<^verbatim>\<open>True\<close> counts as 1 in sums, comparisons and equality.
\<close>

datatype num = PyInt int | PyFloat double

fun num_of :: "json \<Rightarrow> num option" where
  "num_of (JInt i) = Some (PyInt i)"
| "num_of (JBool b) = Some (PyInt (if b then 1 else 0))"
| "num_of (JFloat d) = Some (PyFloat d)"
| "num_of _ = None"




subsection \<open>Sets and sorting\<close>

text \<open>Lists and dicts are not hashable and cannot be members of a set.\<close>

fun hashable :: "json \<Rightarrow> bool" where
  "hashable (JArr xs) = False"
| "hashable (JObj kvs) = False"
| "hashable _ = True"

text \<open>
  The position of a number among the numbers: \<^verbatim>\<open>-inf\<close> below, \<^verbatim>\<open>inf\<close> above every
  finite value; \<^verbatim>\<open>int\<close> and \<^verbatim>\<open>float\<close> compare by their exact values.
\<close>

fun num_key :: "num \<Rightarrow> int \<times> rat" where
  "num_key (PyInt i) = (0, of_int i)"
| "num_key (PyFloat (Finite r)) = (0, r)"
| "num_key (PyFloat NegInf) = (- 1, 0)"
| "num_key (PyFloat PosInf) = (1, 0)"
| "num_key (PyFloat NaN) = (2, 0)"

text \<open>
  Membership in a set tests \<^verbatim>\<open>x is y or x == y\<close> on hashable values: numbers by
  value, everything else by structure. \<^verbatim>\<open>json.load\<close> returns one and the same object
  for every literal \<^verbatim>\<open>NaN\<close>, so a \<^verbatim>\<open>nan\<close> of a document is found in a set that has
  one.
\<close>

definition py_eq :: "json \<Rightarrow> json \<Rightarrow> bool" where
  "py_eq a b =
     (case (num_of a, num_of b) of
        (Some x, Some y) \<Rightarrow> num_key x = num_key y
      | (None, None) \<Rightarrow> a = b
      | _ \<Rightarrow> False)"

text \<open>
  A set built by adding the elements in turn: an element equal to one already present
  is dropped. The members are listed in the order of their first occurrence.
\<close>

definition py_set_add :: "json list \<Rightarrow> json \<Rightarrow> json list" where
  "py_set_add s x = (if list_ex (\<lambda>y. py_eq y x) s then s else s @ [x])"

definition py_set :: "json list \<Rightarrow> error + json list" where
  "py_set xs = (if list_all hashable xs then Inr (foldl py_set_add [] xs) else Inl TypeError)"

fun is_str :: "json \<Rightarrow> bool" where
  "is_str (JStr s) = True"
| "is_str _ = False"

fun str_of :: "json \<Rightarrow> string" where
  "str_of (JStr s) = s"
| "str_of _ = []"

fun is_num :: "json \<Rightarrow> bool" where
  "is_num (JInt i) = True"
| "is_num (JFloat d) = True"
| "is_num (JBool b) = True"
| "is_num _ = False"

fun is_nan :: "json \<Rightarrow> bool" where
  "is_nan (JFloat NaN) = True"
| "is_nan _ = False"

fun json_key :: "json \<Rightarrow> int \<times> rat" where
  "json_key (JInt i) = num_key (PyInt i)"
| "json_key (JBool b) = num_key (PyInt (if b then 1 else 0))"
| "json_key (JFloat d) = num_key (PyFloat d)"
| "json_key _ = (0, 0)"

text \<open>
  \<^verbatim>\<open>sorted(...)\<close> on pairwise different hashable values: no comparison is made on a
  list of at most one element; strings compare with strings and numbers with numbers;
  any other pair raises \<^verbatim>\<open>TypeError\<close>. Comparisons with \<^verbatim>\<open>nan\<close> are all false, so
  the order in which the sort leaves numbers that include \<^verbatim>\<open>nan\<close> depends on the
  sorting algorithm; it is the parameter \<open>orden_nan\<close>.
\<close>

definition py_sorted :: "(json list \<Rightarrow> json list) \<Rightarrow> json list \<Rightarrow> error + json list" where
  "py_sorted orden_nan xs =
     (if length xs \<le> 1 then Inr xs
      else if list_all is_str xs then Inr (map JStr (sort (map str_of xs)))
      else if list_all is_num xs then
        (if list_ex is_nan xs then Inr (orden_nan xs) else Inr (sort_key json_key xs))
      else Inl TypeError)"

section \<open>User logic\<close>

definition USERS_FILE :: string where
  "USERS_FILE = ''usuarios.json''"

definition cargar_usuarios :: "fs \<Rightarrow> error + json" where
  "cargar_usuarios fs =
     (case fs USERS_FILE of
        Some (Doc usuarios) \<Rightarrow> Inr usuarios
      | Some (Unreadable e) \<Rightarrow> Inl e
      | None \<Rightarrow> Inr (JObj []))"

definition guardar_usuarios :: "json \<Rightarrow> fs \<Rightarrow> fs" where
  "guardar_usuarios usuarios fs = fs(USERS_FILE \<mapsto> Doc usuarios)"

text \<open>
  \<open>registrar_usuario\<close> returns the boolean of the source together with the file
  store after the call.
\<close>

definition registrar_usuario :: "string \<Rightarrow> string \<Rightarrow> fs \<Rightarrow> error + (bool \<times> fs)" where
  "registrar_usuario usuario password fs =
     (case cargar_usuarios fs of
        Inl e \<Rightarrow> Inl e
      | Inr usuarios \<Rightarrow>
          (case py_contains usuarios usuario of
             Inl e \<Rightarrow> Inl e
           | Inr True \<Rightarrow> Inr (False, fs)
           | Inr False \<Rightarrow>
               (case py_setitem usuarios usuario (JStr password) of
                  Inl e \<Rightarrow> Inl e
                | Inr usuarios' \<Rightarrow> Inr (True, guardar_usuarios usuarios' fs))))"

definition validar_usuario :: "string \<Rightarrow> string \<Rightarrow> fs \<Rightarrow> error + bool" where
  "validar_usuario usuario password fs =
     (case cargar_usuarios fs of
        Inl e \<Rightarrow> Inl e
      | Inr usuarios \<Rightarrow>
          (case py_get usuarios usuario of
             Inl e \<Rightarrow> Inl e
           | Inr v \<Rightarrow> Inr (v = JStr password)))"

section \<open>Expense logic\<close>

subsection \<open>The clock\<close>

text \<open>
  \<^verbatim>\<open>datetime.now().strftime("%Y-%m-%d %H:%M:%S")\<close>: the reading of the clock is a
  parameter of every operation that may construct a \<^verbatim>\<open>Gasto\<close>; the format prints the
  year on four digits and the other fields on two.
\<close>

record datetime =
  year :: nat
  month :: nat
  day :: nat
  hour :: nat
  minute :: nat
  second :: nat

definition digit :: "nat \<Rightarrow> char" where
  "digit n = ''0123456789'' ! (n mod 10)"

definition pad2 :: "nat \<Rightarrow> string" where
  "pad2 n = [digit (n div 10), digit n]"

definition pad4 :: "nat \<Rightarrow> string" where
  "pad4 n = [digit (n div 1000), digit (n div 100), digit (n div 10), digit n]"

definition strftime :: "datetime \<Rightarrow> string" where
  "strftime t =
     pad4 (year t) @ ''-'' @ pad2 (month t) @ ''-'' @ pad2 (day t) @ '' '' @
     pad2 (hour t) @ '':'' @ pad2 (minute t) @ '':'' @ pad2 (second t)"

subsection \<open>Class \<^verbatim>\<open>Gasto\<close>\<close>

record gasto =
  descripcion :: json
  monto :: json
  categoria :: json
  fecha :: json

text \<open>
  \<open>Gasto_init\<close> is \<^verbatim>\<open>Gasto.__init__\<close>; \<open>ahora\<close> is what \<^verbatim>\<open>datetime.now()\<close>
  returns if it is called. The default \<^verbatim>\<open>fecha = None\<close> is passed as \<open>JNull\<close>.
\<close>

definition Gasto_init :: "datetime \<Rightarrow> json \<Rightarrow> json \<Rightarrow> json \<Rightarrow> json \<Rightarrow> gasto" where
  "Gasto_init ahora descripcion' monto' categoria' fecha' =
     \<lparr>descripcion = descripcion', monto = monto', categoria = categoria',
      fecha = (if truthy fecha' then fecha' else JStr (strftime ahora))\<rparr>"

definition to_dict :: "gasto \<Rightarrow> json" where
  "to_dict self =
     JObj [(''descripcion'', descripcion self), (''monto'', monto self),
           (''categoria'', categoria self), (''fecha'', fecha self)]"

definition from_dict :: "datetime \<Rightarrow> json \<Rightarrow> error + gasto" where
  "from_dict ahora data =
     (case py_getitem data ''descripcion'' of
        Inl e \<Rightarrow> Inl e
      | Inr d \<Rightarrow>
     (case py_getitem data ''monto'' of
        Inl e \<Rightarrow> Inl e
      | Inr m \<Rightarrow>
     (case py_getitem data ''categoria'' of
        Inl e \<Rightarrow> Inl e
      | Inr c \<Rightarrow>
     (case py_getitem data ''fecha'' of
        Inl e \<Rightarrow> Inl e
      | Inr f \<Rightarrow> Inr (Gasto_init ahora d m c f)))))"

subsection \<open>Class \<^verbatim>\<open>GestorGastos\<close>\<close>

record gestor =
  archivo_datos :: string
  gastos :: "gasto list"

text \<open>
  The list comprehension \<^verbatim>\<open>[Gasto.from_dict(d) for d in datos]\<close>: the elements are
  converted from left to right and the first exception ends the comprehension.
  \<open>reloj i\<close> is the reading of the clock while element \<open>i\<close> is converted.
\<close>

fun from_dicts :: "(nat \<Rightarrow> datetime) \<Rightarrow> nat \<Rightarrow> json list \<Rightarrow> error + gasto list" where
  "from_dicts reloj i [] = Inr []"
| "from_dicts reloj i (d # ds) =
     (case from_dict (reloj i) d of
        Inl e \<Rightarrow> Inl e
      | Inr g \<Rightarrow>
          (case from_dicts reloj (Suc i) ds of
             Inl e \<Rightarrow> Inl e
           | Inr gs \<Rightarrow> Inr (g # gs)))"

text \<open>The body of the \<^verbatim>\<open>try\<close> block of \<^verbatim>\<open>cargar_datos\<close>, on a file that exists.\<close>

definition leer_datos :: "(nat \<Rightarrow> datetime) \<Rightarrow> disk_file \<Rightarrow> error + gasto list" where
  "leer_datos reloj f =
     (case f of
        Unreadable e \<Rightarrow> Inl e
      | Doc datos \<Rightarrow>
          (case py_iter datos of
             Inl e \<Rightarrow> Inl e
           | Inr ds \<Rightarrow> from_dicts reloj 0 ds))"

text \<open>
  \<^verbatim>\<open>cargar_datos\<close>: \<^verbatim>\<open>except Exception\<close> catches every exception of the \<^verbatim>\<open>try\<close>
  block. The result is a sum so that an exception leaving the method would be a value
  \<open>Inl\<close>.
\<close>

definition cargar_datos :: "(nat \<Rightarrow> datetime) \<Rightarrow> fs \<Rightarrow> gestor \<Rightarrow> error + gestor" where
  "cargar_datos reloj fs self =
     (case fs (archivo_datos self) of
        None \<Rightarrow> Inr self
      | Some f \<Rightarrow>
          (case leer_datos reloj f of
             Inr gs \<Rightarrow> Inr (self\<lparr>gastos := gs\<rparr>)
           | Inl e \<Rightarrow> Inr (self\<lparr>gastos := []\<rparr>)))"

definition GestorGastos_init :: "(nat \<Rightarrow> datetime) \<Rightarrow> string \<Rightarrow> fs \<Rightarrow> error + gestor" where
  "GestorGastos_init reloj usuario fs =
     cargar_datos reloj fs \<lparr>archivo_datos = ''gastos_'' @ usuario @ ''.json'', gastos = []\<rparr>"

text \<open>
  \<^verbatim>\<open>guardar_datos\<close> opens the file for writing and dumps the list of dictionaries. When
  \<^verbatim>\<open>open\<close> raises, the exception leaves the method and the files are as before.
\<close>

definition guardar_datos :: "open_w \<Rightarrow> gestor \<Rightarrow> fs \<Rightarrow> error + fs" where
  "guardar_datos open_w self fs =
     (case open_w (archivo_datos self) of
        Some e \<Rightarrow> Inl e
      | None \<Rightarrow> Inr (fs(archivo_datos self \<mapsto> Doc (JArr (map to_dict (gastos self))))))"

text \<open>
  The mutating methods take the object and the file store and return both after the
  call, together with the exception that left the method, if any: the list is changed in
  place before \<^verbatim>\<open>guardar_datos\<close> is called, so the object is changed also when the
  call raises.
\<close>

definition agregar_gasto ::
    "open_w \<Rightarrow> datetime \<Rightarrow> json \<Rightarrow> json \<Rightarrow> json \<Rightarrow> gestor \<times> fs \<Rightarrow> error option \<times> gestor \<times> fs" where
  "agregar_gasto open_w ahora descripcion' monto' categoria' st =
     (case st of (self, fs) \<Rightarrow>
        let self' = self\<lparr>gastos := gastos self @ [Gasto_init ahora descripcion' monto' categoria' JNull]\<rparr>
        in (case guardar_datos open_w self' fs of
              Inl e \<Rightarrow> (Some e, self', fs)
            | Inr fs' \<Rightarrow> (None, self', fs')))"

text \<open>\<^verbatim>\<open>list.pop(i)\<close> for an index \<open>0 \<le> i < len\<close>.\<close>

definition pop :: "nat \<Rightarrow> 'a list \<Rightarrow> 'a list" where
  "pop i xs = take i xs @ drop (Suc i) xs"

definition eliminar_gasto :: "open_w \<Rightarrow> int \<Rightarrow> gestor \<times> fs \<Rightarrow> error option \<times> gestor \<times> fs" where
  "eliminar_gasto open_w indice st =
     (case st of (self, fs) \<Rightarrow>
        if 0 \<le> indice \<and> indice < int (length (gastos self)) then
          let self' = self\<lparr>gastos := pop (nat indice) (gastos self)\<rparr>
          in (case guardar_datos open_w self' fs of
                Inl e \<Rightarrow> (Some e, self', fs)
              | Inr fs' \<Rightarrow> (None, self', fs'))
        else (None, self, fs))"

definition obtener_categorias :: "(json list \<Rightarrow> json list) \<Rightarrow> gestor \<Rightarrow> error + json list" where
  "obtener_categorias orden_nan self =
     (case py_set (map categoria (gastos self)) of
        Inl e \<Rightarrow> Inl e
      | Inr s \<Rightarrow> py_sorted orden_nan s)"


subsection \<open>The form that adds an expense\<close>

text \<open>
  The handler of the form \<^verbatim>\<open>nuevo_gasto\<close> (lines 124 to 133 of \<^verbatim>\<open>app.py\<close>).
  \<open>monto'\<close> is the outcome of \<^verbatim>\<open>float(monto)\<close> on the text typed by the user: a
  float, which may be \<^verbatim>\<open>nan\<close> or infinite, or \<open>None\<close> when it raises
  \<^verbatim>\<open>ValueError\<close>. The result carries the message shown, or the exception that leaves
  the handler: \<^verbatim>\<open>except ValueError\<close> is around the whole block, so it also catches a
  \<^verbatim>\<open>ValueError\<close> raised by \<^verbatim>\<open>agregar_gasto\<close>.
\<close>

datatype aviso = Monto_invalido | Monto_debe_ser_mayor_a_0 | Gasto_agregado

definition nuevo_gasto ::
    "open_w \<Rightarrow> datetime \<Rightarrow> string \<Rightarrow> double option \<Rightarrow> string \<Rightarrow> gestor \<times> fs \<Rightarrow>
       (error + aviso) \<times> gestor \<times> fs" where
  "nuevo_gasto open_w ahora desc monto' cat st =
     (case monto' of
        None \<Rightarrow> (Inr Monto_invalido, st)
      | Some m \<Rightarrow>
          if dle0 m then (Inr Monto_debe_ser_mayor_a_0, st)
          else
            (case agregar_gasto open_w ahora (JStr desc) (JFloat m) (JStr cat) st of
               (None, st') \<Rightarrow> (Inr Gasto_agregado, st')
             | (Some e, st') \<Rightarrow>
                 if is_ValueError e then (Inr Monto_invalido, st') else (Inl e, st')))"

subsection \<open>The objects of class \<^verbatim>\<open>Gasto\<close>\<close>

text \<open>
  A Python object of class \<^verbatim>\<open>Gasto\<close> only comes into being through
  \<^verbatim>\<open>Gasto.__init__\<close>, which replaces a falsy \<^verbatim>\<open>fecha\<close> by the formatted clock
  reading. The record type \<open>gasto\<close> is larger than the class: \<open>Gasto_inv\<close> singles
  out the records that are such objects (lemma \<open>Gasto_inv_iff\<close> below).
\<close>

definition Gasto_inv :: "gasto \<Rightarrow> bool" where
  "Gasto_inv g = truthy (fecha g)"

subsection \<open>Example data\<close>

text \<open>
  \<open>ej_sin_dir\<close> is a working directory without subdirectories: a path with a
  directory part cannot be opened for writing. \<open>ej_01\<close> and \<open>ej_02\<close> are the floats
  \<^verbatim>\<open>0.1\<close> and \<^verbatim>\<open>0.2\<close>.
\<close>

abbreviation ej_ahora :: datetime where
  "ej_ahora \<equiv> \<lparr>year = 2024, month = 5, day = 17, hour = 9, minute = 30, second = 0\<rparr>"

abbreviation ej_gasto :: "string \<Rightarrow> rat \<Rightarrow> string \<Rightarrow> gasto" where
  "ej_gasto d m c \<equiv>
     \<lparr>descripcion = JStr d, monto = JFloat (Finite m), categoria = JStr c,
      fecha = JStr ''2024-05-17 09:30:00''\<rparr>"

abbreviation ej_dict :: "string \<Rightarrow> rat \<Rightarrow> string \<Rightarrow> json" where
  "ej_dict d m c \<equiv>
     JObj [(''descripcion'', JStr d), (''monto'', JFloat (Finite m)), (''categoria'', JStr c),
           (''fecha'', JStr ''2024-05-17 09:30:00'')]"

abbreviation ej_gestor :: "gasto list \<Rightarrow> gestor" where
  "ej_gestor gs \<equiv> \<lparr>archivo_datos = ''gastos_ana.json'', gastos = gs\<rparr>"

abbreviation ej_gestor_ab :: "gasto list \<Rightarrow> gestor" where
  "ej_gestor_ab gs \<equiv> \<lparr>archivo_datos = ''gastos_a/b.json'', gastos = gs\<rparr>"

abbreviation ej_usuarios :: fs where
  "ej_usuarios \<equiv> [USERS_FILE \<mapsto> Doc (JObj [(''alice'', JStr ''pw1'')])]"

abbreviation ej_escribible :: open_w where
  "ej_escribible \<equiv> (\<lambda>path. None)"

abbreviation ej_sin_dir :: open_w where
  "ej_sin_dir \<equiv> (\<lambda>path. if CHR ''/'' \<in> set path then Some FileNotFoundError else None)"



section \<open>Properties of the user logic\<close>

lemma dict_setitem_fresh:
  "k \<notin> set (map fst kvs) \<Longrightarrow> dict_setitem kvs k v = kvs @ [(k, v)]"
  by (induction kvs) auto

lemma map_of_fresh_append:
  "k \<notin> set (map fst kvs) \<Longrightarrow> map_of (kvs @ [(k, v)]) k = Some v"
  by (induction kvs) auto

lemma map_of_None_keys: "(map_of kvs k = None) = (k \<notin> set (map fst kvs))"
  by (simp add: map_of_eq_None_iff)

lemma registrar_existing:
  "cargar_usuarios fs = Inr (JObj kvs) \<Longrightarrow> usuario \<in> set (map fst kvs) \<Longrightarrow>
   registrar_usuario usuario password fs = Inr (False, fs)"
  by (simp add: registrar_usuario_def)

lemma registrar_new:
  "cargar_usuarios fs = Inr (JObj kvs) \<Longrightarrow> usuario \<notin> set (map fst kvs) \<Longrightarrow>
   registrar_usuario usuario password fs =
     Inr (True, fs(USERS_FILE \<mapsto> Doc (JObj (kvs @ [(usuario, JStr password)]))))"
  by (simp add: registrar_usuario_def dict_setitem_fresh guardar_usuarios_def)

text \<open>
  Claim C2. Let the stored credential mapping be the dict \<open>kvs\<close> (the empty dict when
  \<^verbatim>\<open>usuarios.json\<close> does not exist). If the username is already a key,
  \<open>registrar_usuario\<close> returns \<open>False\<close> and leaves the store as it is. Otherwise it
  returns \<open>True\<close> and the store holds the mapping extended by the pair; after that
  \<open>validar_usuario\<close> with the same username and password returns \<open>True\<close>, and
  registering the same username again, with any password, returns \<open>False\<close> and changes
  nothing.
\<close>

theorem registrar_usuario_spec:
  assumes "cargar_usuarios fs = Inr (JObj kvs)"
  shows "(usuario \<in> set (map fst kvs) \<longrightarrow>
            registrar_usuario usuario password fs = Inr (False, fs))
       \<and> (usuario \<notin> set (map fst kvs) \<longrightarrow>
            (\<exists>fs'. registrar_usuario usuario password fs = Inr (True, fs')
               \<and> fs' = fs(USERS_FILE \<mapsto> Doc (JObj (kvs @ [(usuario, JStr password)])))
               \<and> validar_usuario usuario password fs' = Inr True
               \<and> (\<forall>password'. registrar_usuario usuario password' fs' = Inr (False, fs'))))"
proof (intro conjI impI)
  assume "usuario \<in> set (map fst kvs)"
  with assms show "registrar_usuario usuario password fs = Inr (False, fs)"
    by (rule registrar_existing)
next
  assume fresh: "usuario \<notin> set (map fst kvs)"
  let ?kvs' = "kvs @ [(usuario, JStr password)]"
  let ?fs' = "fs(USERS_FILE \<mapsto> Doc (JObj ?kvs'))"
  have reg: "registrar_usuario usuario password fs = Inr (True, ?fs')"
    using assms fresh by (rule registrar_new)
  have loaded: "cargar_usuarios ?fs' = Inr (JObj ?kvs')"
    by (simp add: cargar_usuarios_def)
  have "map_of ?kvs' usuario = Some (JStr password)"
    using fresh by (rule map_of_fresh_append)
  then have val: "validar_usuario usuario password ?fs' = Inr True"
    using loaded by (simp add: validar_usuario_def del: map_of_append)
  have again: "registrar_usuario usuario password' ?fs' = Inr (False, ?fs')" for password'
    using loaded by (rule registrar_existing) simp
  from reg val again
  show "\<exists>fs'. registrar_usuario usuario password fs = Inr (True, fs')
          \<and> fs' = ?fs'
          \<and> validar_usuario usuario password fs' = Inr True
          \<and> (\<forall>password'. registrar_usuario usuario password' fs' = Inr (False, fs'))"
    by blast
qed

theorem registrar_usuario_spec_witness:
  "cargar_usuarios Map.empty = Inr (JObj [])
   \<and> ''alice'' \<notin> set (map fst ([] :: (string \<times> json) list))
   \<and> registrar_usuario ''alice'' ''pw1'' Map.empty = Inr (True, ej_usuarios)
   \<and> validar_usuario ''alice'' ''pw1'' ej_usuarios = Inr True
   \<and> cargar_usuarios ej_usuarios = Inr (JObj [(''alice'', JStr ''pw1'')])
   \<and> ''alice'' \<in> set (map fst [(''alice'', JStr ''pw1'')])
   \<and> registrar_usuario ''alice'' ''pw2'' ej_usuarios = Inr (False, ej_usuarios)"
proof -
  have h0: "cargar_usuarios Map.empty = Inr (JObj [])"
    by (simp add: cargar_usuarios_def)
  have h1: "cargar_usuarios ej_usuarios = Inr (JObj [(''alice'', JStr ''pw1'')])"
    by (simp add: cargar_usuarios_def)
  show ?thesis
    using h0 h1 registrar_usuario_spec [OF h0, of "''alice''" "''pw1''"]
      registrar_usuario_spec [OF h1, of "''alice''" "''pw2''"]
    by simp
qed

text \<open>
  Claim C3. Let the stored credential mapping be the dict \<open>kvs\<close> (the empty dict when
  \<^verbatim>\<open>usuarios.json\<close> does not exist). \<open>validar_usuario\<close> returns \<open>True\<close> exactly
  when the username is a key of the mapping and the value stored under it is the string
  equal, character for character, to the given password. For a username that is not a
  key it returns \<open>False\<close>; it does not raise.
\<close>

theorem validar_usuario_iff:
  assumes "cargar_usuarios fs = Inr (JObj kvs)"
  shows "validar_usuario usuario password fs =
           Inr (usuario \<in> set (map fst kvs) \<and> map_of kvs usuario = Some (JStr password))
       \<and> (usuario \<notin> set (map fst kvs) \<longrightarrow> validar_usuario usuario password fs = Inr False)"
proof -
  have run: "validar_usuario usuario password fs =
      Inr ((case map_of kvs usuario of None \<Rightarrow> JNull | Some v \<Rightarrow> v) = JStr password)"
    using assms by (simp add: validar_usuario_def)
  show ?thesis
  proof (cases "map_of kvs usuario")
    case None
    then have "usuario \<notin> set (map fst kvs)" by (simp add: map_of_None_keys)
    with None run show ?thesis by simp
  next
    case (Some v)
    then have "usuario \<in> set (map fst kvs)"
      using map_of_None_keys [of kvs usuario] by auto
    with Some run show ?thesis by simp
  qed
qed

theorem validar_usuario_iff_witness:
  "cargar_usuarios ej_usuarios = Inr (JObj [(''alice'', JStr ''pw1'')])
   \<and> validar_usuario ''alice'' ''pw1'' ej_usuarios = Inr True
   \<and> validar_usuario ''alice'' ''PW1'' ej_usuarios = Inr False
   \<and> validar_usuario ''bob'' ''pw1'' ej_usuarios = Inr False"
proof -
  have h: "cargar_usuarios ej_usuarios = Inr (JObj [(''alice'', JStr ''pw1'')])"
    by (simp add: cargar_usuarios_def)
  show ?thesis
    using h validar_usuario_iff [OF h, of "''alice''" "''pw1''"]
      validar_usuario_iff [OF h, of "''alice''" "''PW1''"]
      validar_usuario_iff [OF h, of "''bob''" "''pw1''"]
    by simp
qed

section \<open>Properties of the expense logic\<close>

subsection \<open>Objects of class \<^verbatim>\<open>Gasto\<close> and the ledgers the program builds\<close>

lemma strftime_nonempty: "strftime t \<noteq> []"
  by (simp add: strftime_def pad4_def)

lemma Gasto_init_default:
  "Gasto_init ahora d m c JNull =
     \<lparr>descripcion = d, monto = m, categoria = c, fecha = JStr (strftime ahora)\<rparr>"
  by (simp add: Gasto_init_def)

lemma Gasto_init_inv: "Gasto_inv (Gasto_init ahora d m c f)"
  by (simp add: Gasto_inv_def Gasto_init_def strftime_nonempty)

text \<open>The records that satisfy \<open>Gasto_inv\<close> are exactly the results of the constructor.\<close>

lemma Gasto_inv_iff: "Gasto_inv g \<longleftrightarrow> (\<exists>ahora d m c f. g = Gasto_init ahora d m c f)"
proof
  assume "Gasto_inv g"
  then have "g = Gasto_init ej_ahora (descripcion g) (monto g) (categoria g) (fecha g)"
    by (simp add: Gasto_inv_def Gasto_init_def)
  then show "\<exists>ahora d m c f. g = Gasto_init ahora d m c f" by blast
next
  assume "\<exists>ahora d m c f. g = Gasto_init ahora d m c f"
  then show "Gasto_inv g" by (auto simp: Gasto_init_inv)
qed

lemma from_dict_Inr:
  "from_dict ahora data = Inr g \<Longrightarrow> \<exists>d m c f. g = Gasto_init ahora d m c f"
  by (auto simp: from_dict_def split: sum.splits)

lemma from_dict_inv: "from_dict ahora data = Inr g \<Longrightarrow> Gasto_inv g"
  by (auto dest: from_dict_Inr simp: Gasto_init_inv)

lemma from_dicts_inv: "from_dicts reloj i ds = Inr gs \<Longrightarrow> list_all Gasto_inv gs"
  by (induction ds arbitrary: i gs) (auto split: sum.splits dest: from_dict_inv)

lemma leer_datos_inv: "leer_datos reloj f = Inr gs \<Longrightarrow> list_all Gasto_inv gs"
  by (auto simp: leer_datos_def split: disk_file.splits sum.splits dest: from_dicts_inv)

text \<open>
  Every ledger the program can hold consists of such objects: the constructor of
  \<^verbatim>\<open>GestorGastos\<close> establishes this and the two mutating methods keep it.
\<close>

lemma GestorGastos_init_inv:
  "GestorGastos_init reloj usuario fs = Inr self \<Longrightarrow> list_all Gasto_inv (gastos self)"
  by (auto simp: GestorGastos_init_def cargar_datos_def split: option.splits sum.splits
           dest: leer_datos_inv)

lemma agregar_gasto_inv:
  "list_all Gasto_inv (gastos self) \<Longrightarrow>
   agregar_gasto open_w ahora d m c (self, fs) = (r, self', fs') \<Longrightarrow>
   list_all Gasto_inv (gastos self')"
  by (auto simp: agregar_gasto_def Let_def Gasto_init_inv split: sum.splits)

lemma set_pop_subset: "set (pop i xs) \<subseteq> set xs"
  by (auto simp: pop_def dest: in_set_takeD in_set_dropD)

lemma eliminar_gasto_gastos:
  "eliminar_gasto open_w i (self, fs) = (r, self', fs') \<Longrightarrow>
   gastos self' =
     (if 0 \<le> i \<and> i < int (length (gastos self)) then pop (nat i) (gastos self)
      else gastos self)"
  by (auto simp: eliminar_gasto_def Let_def split: sum.splits if_splits)

lemma eliminar_gasto_inv:
  assumes "list_all Gasto_inv (gastos self)"
      and "eliminar_gasto open_w i (self, fs) = (r, self', fs')"
  shows "list_all Gasto_inv (gastos self')"
proof -
  have "set (gastos self') \<subseteq> set (gastos self)"
    using eliminar_gasto_gastos [OF assms(2)] set_pop_subset [of "nat i" "gastos self"]
    by (simp split: if_splits)
  with assms(1) show ?thesis
    by (auto simp: list_all_iff)
qed

subsection \<open>Saving\<close>

lemma guardar_datos_ok:
  "open_w (archivo_datos self) = None \<Longrightarrow>
   guardar_datos open_w self fs =
     Inr (fs(archivo_datos self \<mapsto> Doc (JArr (map to_dict (gastos self)))))"
  by (simp add: guardar_datos_def)

lemma guardar_datos_raises:
  "open_w (archivo_datos self) = Some e \<Longrightarrow> guardar_datos open_w self fs = Inl e"
  by (simp add: guardar_datos_def)

subsection \<open>Adding an expense\<close>

lemma agregar_gasto_run:
  "agregar_gasto open_w ahora d m c (self, fs) =
     (let self' = self\<lparr>gastos := gastos self @
            [\<lparr>descripcion = d, monto = m, categoria = c, fecha = JStr (strftime ahora)\<rparr>]\<rparr>
      in case open_w (archivo_datos self) of
           None \<Rightarrow> (None, self', fs(archivo_datos self \<mapsto> Doc (JArr (map to_dict (gastos self')))))
         | Some e \<Rightarrow> (Some e, self', fs))"
  by (simp add: agregar_gasto_def Let_def Gasto_init_default guardar_datos_def split: option.splits)

text \<open>
  Claim C9, as the code has it. \<open>agregar_gasto\<close> always appends exactly one record,
  which carries the given description, amount and category and the formatted clock
  reading, at the end of the sequence: the length grows by one and every record that
  was present keeps its position and its value. When the file of the ledger can be
  opened for writing, the call returns normally and the file then holds the whole new
  sequence. When opening it raises, that exception leaves \<open>agregar_gasto\<close> after the
  append and the files are as before.
\<close>

theorem agregar_gasto_appends:
  assumes "agregar_gasto open_w ahora d m c (self, fs) = (r, self', fs')"
  shows "gastos self' = gastos self @
           [\<lparr>descripcion = d, monto = m, categoria = c, fecha = JStr (strftime ahora)\<rparr>]
       \<and> length (gastos self') = length (gastos self) + 1
       \<and> (\<forall>i. i < length (gastos self) \<longrightarrow> gastos self' ! i = gastos self ! i)
       \<and> archivo_datos self' = archivo_datos self
       \<and> (open_w (archivo_datos self) = None \<longrightarrow>
            r = None \<and> fs' = fs(archivo_datos self \<mapsto> Doc (JArr (map to_dict (gastos self')))))
       \<and> (\<forall>e. open_w (archivo_datos self) = Some e \<longrightarrow> r = Some e \<and> fs' = fs)"
proof -
  let ?g = "\<lparr>descripcion = d, monto = m, categoria = c, fecha = JStr (strftime ahora)\<rparr>"
  have self': "self' = self\<lparr>gastos := gastos self @ [?g]\<rparr>"
    using assms by (auto simp: agregar_gasto_run Let_def split: option.splits)
  have ok: "open_w (archivo_datos self) = None \<longrightarrow>
      r = None \<and> fs' = fs(archivo_datos self \<mapsto> Doc (JArr (map to_dict (gastos self'))))"
    using assms by (auto simp: agregar_gasto_run Let_def)
  have raises: "\<forall>e. open_w (archivo_datos self) = Some e \<longrightarrow> r = Some e \<and> fs' = fs"
    using assms by (auto simp: agregar_gasto_run Let_def)
  from self' have "gastos self' = gastos self @ [?g]" by simp
  moreover from self' have "archivo_datos self' = archivo_datos self" by simp
  ultimately show ?thesis
    using ok raises by (simp add: nth_append)
qed

theorem agregar_gasto_appends_witness:
  "agregar_gasto ej_escribible ej_ahora (JStr ''cafe'') (JFloat (Finite (7/2))) (JStr ''Comida'')
       (ej_gestor [ej_gasto ''pan'' 1 ''Otros''], Map.empty) =
     (None, ej_gestor [ej_gasto ''pan'' 1 ''Otros'', ej_gasto ''cafe'' (7/2) ''Comida''],
      [''gastos_ana.json'' \<mapsto> Doc (JArr [ej_dict ''pan'' 1 ''Otros'', ej_dict ''cafe'' (7/2) ''Comida''])])
   \<and> ej_escribible (archivo_datos (ej_gestor [ej_gasto ''pan'' 1 ''Otros''])) = None
   \<and> agregar_gasto ej_sin_dir ej_ahora (JStr ''cafe'') (JFloat (Finite (7/2))) (JStr ''Comida'')
       (ej_gestor_ab [ej_gasto ''pan'' 1 ''Otros''], Map.empty) =
     (Some FileNotFoundError,
      ej_gestor_ab [ej_gasto ''pan'' 1 ''Otros'', ej_gasto ''cafe'' (7/2) ''Comida''], Map.empty)
   \<and> ej_sin_dir (archivo_datos (ej_gestor_ab [ej_gasto ''pan'' 1 ''Otros''])) = Some FileNotFoundError"
proof -
  have h1: "agregar_gasto ej_escribible ej_ahora (JStr ''cafe'') (JFloat (Finite (7/2))) (JStr ''Comida'')
       (ej_gestor [ej_gasto ''pan'' 1 ''Otros''], Map.empty) =
     (None, ej_gestor [ej_gasto ''pan'' 1 ''Otros'', ej_gasto ''cafe'' (7/2) ''Comida''],
      [''gastos_ana.json'' \<mapsto> Doc (JArr [ej_dict ''pan'' 1 ''Otros'', ej_dict ''cafe'' (7/2) ''Comida''])])"
    by (simp add: agregar_gasto_run Let_def to_dict_def strftime_def pad2_def pad4_def digit_def)
  have h2: "agregar_gasto ej_sin_dir ej_ahora (JStr ''cafe'') (JFloat (Finite (7/2))) (JStr ''Comida'')
       (ej_gestor_ab [ej_gasto ''pan'' 1 ''Otros''], Map.empty) =
     (Some FileNotFoundError,
      ej_gestor_ab [ej_gasto ''pan'' 1 ''Otros'', ej_gasto ''cafe'' (7/2) ''Comida''], Map.empty)"
    by (simp add: agregar_gasto_run Let_def strftime_def pad2_def pad4_def digit_def)
  show ?thesis
    using h1 h2 agregar_gasto_appends [OF h1] agregar_gasto_appends [OF h2]
    by (simp add: strftime_def pad2_def pad4_def digit_def)
qed

text \<open>
  The claim as stated fails where the file cannot be written: for the user \<^verbatim>\<open>a/b\<close> in
  a working directory without the directory \<^verbatim>\<open>gastos_a\<close>, \<open>agregar_gasto\<close> appends
  the record, raises \<^verbatim>\<open>FileNotFoundError\<close> and persists nothing.
\<close>

theorem agregar_gasto_not_persisted:
  "agregar_gasto ej_sin_dir ej_ahora (JStr ''cafe'') (JFloat (Finite (7/2))) (JStr ''Comida'')
       (ej_gestor_ab [], Map.empty) =
     (Some FileNotFoundError, ej_gestor_ab [ej_gasto ''cafe'' (7/2) ''Comida''], Map.empty)"
  by (simp add: agregar_gasto_run Let_def strftime_def pad2_def pad4_def digit_def)

subsection \<open>The check of the amount\<close>

lemma not_dle0_iff: "\<not> dle0 m \<longleftrightarrow> m = NaN \<or> m = PosInf \<or> (\<exists>r. m = Finite r \<and> 0 < r)"
  by (cases m) auto

text \<open>
  Claim C1, as the code has it. \<open>agregar_gasto\<close> does not look at the amount (see the
  theorem of claim C9 and the example below); the amount is checked by the form that
  calls it. For every description, category and amount \<open>m\<close> with \<open>m <= 0\<close>, the
  form shows \<^verbatim>\<open>Monto debe ser mayor a 0\<close> and returns the ledger and the file store as
  they were: \<open>agregar_gasto\<close> is not called, so no record is constructed, appended or
  written. Whenever the form changes the ledger or the files, the amount was a float
  for which \<open>m <= 0\<close> is false: a positive number, \<^verbatim>\<open>inf\<close> or \<^verbatim>\<open>nan\<close>.
\<close>

theorem nuevo_gasto_rejects_non_positive:
  "(dle0 m \<longrightarrow>
      nuevo_gasto open_w ahora desc (Some m) cat st = (Inr Monto_debe_ser_mayor_a_0, st))
   \<and> (snd (nuevo_gasto open_w ahora desc monto' cat st) \<noteq> st \<longrightarrow>
        (\<exists>m'. monto' = Some m' \<and>
           (m' = NaN \<or> m' = PosInf \<or> (\<exists>r. m' = Finite r \<and> 0 < r))))"
proof (intro conjI impI)
  assume "dle0 m"
  then show "nuevo_gasto open_w ahora desc (Some m) cat st = (Inr Monto_debe_ser_mayor_a_0, st)"
    by (simp add: nuevo_gasto_def)
next
  assume changed: "snd (nuevo_gasto open_w ahora desc monto' cat st) \<noteq> st"
  then obtain m' where m': "monto' = Some m'"
    by (cases monto') (auto simp: nuevo_gasto_def)
  with changed have "\<not> dle0 m'"
    by (auto simp: nuevo_gasto_def)
  with m' show "\<exists>m'. monto' = Some m' \<and>
      (m' = NaN \<or> m' = PosInf \<or> (\<exists>r. m' = Finite r \<and> 0 < r))"
    by (simp add: not_dle0_iff)
qed

theorem nuevo_gasto_rejects_non_positive_witness:
  "dle0 (Finite (-5))
   \<and> nuevo_gasto ej_escribible ej_ahora ''cafe'' (Some (Finite (-5))) ''Comida'' (ej_gestor [], Map.empty) =
       (Inr Monto_debe_ser_mayor_a_0, ej_gestor [], Map.empty)
   \<and> dle0 NegInf
   \<and> nuevo_gasto ej_escribible ej_ahora ''cafe'' (Some NegInf) ''Comida'' (ej_gestor [], Map.empty) =
       (Inr Monto_debe_ser_mayor_a_0, ej_gestor [], Map.empty)
   \<and> nuevo_gasto ej_escribible ej_ahora ''cafe'' (Some NaN) ''Comida'' (ej_gestor [], Map.empty) =
       (Inr Gasto_agregado,
        ej_gestor [\<lparr>descripcion = JStr ''cafe'', monto = JFloat NaN, categoria = JStr ''Comida'',
                    fecha = JStr ''2024-05-17 09:30:00''\<rparr>],
        [''gastos_ana.json'' \<mapsto> Doc (JArr
           [JObj [(''descripcion'', JStr ''cafe''), (''monto'', JFloat NaN),
                  (''categoria'', JStr ''Comida''), (''fecha'', JStr ''2024-05-17 09:30:00'')]])])
   \<and> snd (nuevo_gasto ej_escribible ej_ahora ''cafe'' (Some NaN) ''Comida'' (ej_gestor [], Map.empty)) \<noteq>
       (ej_gestor [], Map.empty)"
proof -
  have h: "nuevo_gasto ej_escribible ej_ahora ''cafe'' (Some NaN) ''Comida'' (ej_gestor [], Map.empty) =
       (Inr Gasto_agregado,
        ej_gestor [\<lparr>descripcion = JStr ''cafe'', monto = JFloat NaN, categoria = JStr ''Comida'',
                    fecha = JStr ''2024-05-17 09:30:00''\<rparr>],
        [''gastos_ana.json'' \<mapsto> Doc (JArr
           [JObj [(''descripcion'', JStr ''cafe''), (''monto'', JFloat NaN),
                  (''categoria'', JStr ''Comida''), (''fecha'', JStr ''2024-05-17 09:30:00'')]])])"
    by (simp add: nuevo_gasto_def agregar_gasto_run Let_def to_dict_def
          strftime_def pad2_def pad4_def digit_def)
  show ?thesis
    using h
      nuevo_gasto_rejects_non_positive
        [of "Finite (-5)" ej_escribible ej_ahora "''cafe''" "''Comida''" "(ej_gestor [], Map.empty)"
            "Some NaN"]
      nuevo_gasto_rejects_non_positive
        [of NegInf ej_escribible ej_ahora "''cafe''" "''Comida''" "(ej_gestor [], Map.empty)"
            "Some NaN"]
    by simp
qed

text \<open>
  The claim as stated fails on \<open>agregar_gasto\<close> itself: called with the amount \<open>-5\<close>
  on an empty ledger it appends the record and writes it to the file.
\<close>

theorem agregar_gasto_accepts_non_positive:
  "agregar_gasto ej_escribible ej_ahora (JStr ''cafe'') (JFloat (Finite (-5))) (JStr ''Comida'')
       (ej_gestor [], Map.empty) =
     (None, ej_gestor [ej_gasto ''cafe'' (-5) ''Comida''],
      [''gastos_ana.json'' \<mapsto> Doc (JArr [ej_dict ''cafe'' (-5) ''Comida''])])"
  by (simp add: agregar_gasto_run Let_def to_dict_def strftime_def pad2_def pad4_def digit_def)

subsection \<open>Removing an expense\<close>

lemma pop_length: "i < length xs \<Longrightarrow> length (pop i xs) = length xs - 1"
  by (simp add: pop_def)

lemma pop_nth_before: "j < i \<Longrightarrow> i < length xs \<Longrightarrow> pop i xs ! j = xs ! j"
  by (simp add: pop_def nth_append)

lemma pop_nth_after: "i \<le> j \<Longrightarrow> Suc j < length xs \<Longrightarrow> pop i xs ! j = xs ! Suc j"
  by (simp add: pop_def nth_append min_def)

lemma eliminar_gasto_run:
  "0 \<le> i \<and> i < int (length (gastos self)) \<Longrightarrow>
   eliminar_gasto open_w i (self, fs) =
     (let self' = self\<lparr>gastos := pop (nat i) (gastos self)\<rparr>
      in case open_w (archivo_datos self) of
           None \<Rightarrow> (None, self', fs(archivo_datos self \<mapsto> Doc (JArr (map to_dict (gastos self')))))
         | Some e \<Rightarrow> (Some e, self', fs))"
  by (simp add: eliminar_gasto_def Let_def guardar_datos_def split: option.splits)

text \<open>
  Claim C4, as the code has it. For an integer index \<open>i\<close> with \<open>0 \<le> i < n\<close>, where
  \<open>n\<close> is the length of the ledger, \<open>eliminar_gasto\<close> removes the record at position
  \<open>i\<close> and nothing else: the records before \<open>i\<close> stay where they are and the records
  after \<open>i\<close> move down by one position. When the file of the ledger can be opened for
  writing, the call returns normally and the file then holds the new sequence; when
  opening it raises, that exception leaves \<open>eliminar_gasto\<close> after the removal and the
  files are as before. For every other index the call returns normally, with the ledger
  and the file store unchanged.
\<close>

theorem eliminar_gasto_index:
  "(0 \<le> i \<and> i < int (length (gastos self)) \<longrightarrow>
      (\<exists>r self' fs'. eliminar_gasto open_w i (self, fs) = (r, self', fs')
         \<and> archivo_datos self' = archivo_datos self
         \<and> gastos self' = take (nat i) (gastos self) @ drop (nat i + 1) (gastos self)
         \<and> length (gastos self') = length (gastos self) - 1
         \<and> (\<forall>j. j < nat i \<longrightarrow> gastos self' ! j = gastos self ! j)
         \<and> (\<forall>j. nat i \<le> j \<and> j < length (gastos self') \<longrightarrow>
               gastos self' ! j = gastos self ! (j + 1))
         \<and> (open_w (archivo_datos self) = None \<longrightarrow>
               r = None \<and>
               fs' = fs(archivo_datos self \<mapsto> Doc (JArr (map to_dict (gastos self')))))
         \<and> (\<forall>e. open_w (archivo_datos self) = Some e \<longrightarrow> r = Some e \<and> fs' = fs)))
   \<and> (\<not> (0 \<le> i \<and> i < int (length (gastos self))) \<longrightarrow>
        eliminar_gasto open_w i (self, fs) = (None, self, fs))"
proof (cases "0 \<le> i \<and> i < int (length (gastos self))")
  case True
  then have lt: "nat i < length (gastos self)" by linarith
  let ?self' = "self\<lparr>gastos := pop (nat i) (gastos self)\<rparr>"
  let ?saved = "fs(archivo_datos self \<mapsto> Doc (JArr (map to_dict (gastos ?self'))))"
  let ?fs' = "case open_w (archivo_datos self) of None \<Rightarrow> ?saved | Some e \<Rightarrow> fs"
  have run: "eliminar_gasto open_w i (self, fs) = (open_w (archivo_datos self), ?self', ?fs')"
    using True by (simp add: eliminar_gasto_run Let_def split: option.splits)
  have ok: "open_w (archivo_datos self) = None \<longrightarrow>
      open_w (archivo_datos self) = None \<and> ?fs' = ?saved"
    by simp
  have raises: "\<forall>e. open_w (archivo_datos self) = Some e \<longrightarrow>
      open_w (archivo_datos self) = Some e \<and> ?fs' = fs"
    by simp
  have len: "length (gastos ?self') = length (gastos self) - 1"
    using lt by (simp add: pop_length)
  have before: "\<forall>j. j < nat i \<longrightarrow> gastos ?self' ! j = gastos self ! j"
    using lt by (simp add: pop_nth_before)
  have after: "\<forall>j. nat i \<le> j \<and> j < length (gastos ?self') \<longrightarrow>
      gastos ?self' ! j = gastos self ! (j + 1)"
  proof (intro allI impI)
    fix j assume "nat i \<le> j \<and> j < length (gastos ?self')"
    then have "nat i \<le> j" and "Suc j < length (gastos self)"
      using lt by (auto simp: pop_length)
    then show "gastos ?self' ! j = gastos self ! (j + 1)"
      by (simp add: pop_nth_after)
  qed
  have popped: "gastos ?self' = take (nat i) (gastos self) @ drop (nat i + 1) (gastos self)"
    by (simp add: pop_def)
  have same: "archivo_datos ?self' = archivo_datos self" by simp
  have "\<exists>r self' fs'. eliminar_gasto open_w i (self, fs) = (r, self', fs')
         \<and> archivo_datos self' = archivo_datos self
         \<and> gastos self' = take (nat i) (gastos self) @ drop (nat i + 1) (gastos self)
         \<and> length (gastos self') = length (gastos self) - 1
         \<and> (\<forall>j. j < nat i \<longrightarrow> gastos self' ! j = gastos self ! j)
         \<and> (\<forall>j. nat i \<le> j \<and> j < length (gastos self') \<longrightarrow>
               gastos self' ! j = gastos self ! (j + 1))
         \<and> (open_w (archivo_datos self) = None \<longrightarrow>
               r = None \<and>
               fs' = fs(archivo_datos self \<mapsto> Doc (JArr (map to_dict (gastos self')))))
         \<and> (\<forall>e. open_w (archivo_datos self) = Some e \<longrightarrow> r = Some e \<and> fs' = fs)"
  proof (intro exI conjI)
    show "eliminar_gasto open_w i (self, fs) = (open_w (archivo_datos self), ?self', ?fs')"
      by (rule run)
    show "archivo_datos ?self' = archivo_datos self" by (rule same)
    show "gastos ?self' = take (nat i) (gastos self) @ drop (nat i + 1) (gastos self)"
      by (rule popped)
    show "length (gastos ?self') = length (gastos self) - 1" by (rule len)
    show "\<forall>j. j < nat i \<longrightarrow> gastos ?self' ! j = gastos self ! j" by (rule before)
    show "\<forall>j. nat i \<le> j \<and> j < length (gastos ?self') \<longrightarrow>
        gastos ?self' ! j = gastos self ! (j + 1)" by (rule after)
    show "open_w (archivo_datos self) = None \<longrightarrow>
        open_w (archivo_datos self) = None \<and> ?fs' = ?saved" by (rule ok)
    show "\<forall>e. open_w (archivo_datos self) = Some e \<longrightarrow>
        open_w (archivo_datos self) = Some e \<and> ?fs' = fs" by (rule raises)
  qed
  with True show ?thesis by (rule_tac conjI) simp_all
next
  case False
  then have noop: "eliminar_gasto open_w i (self, fs) = (None, self, fs)"
    by (auto simp: eliminar_gasto_def)
  show ?thesis
  proof (rule conjI)
    show "0 \<le> i \<and> i < int (length (gastos self)) \<longrightarrow>
      (\<exists>r self' fs'. eliminar_gasto open_w i (self, fs) = (r, self', fs')
         \<and> archivo_datos self' = archivo_datos self
         \<and> gastos self' = take (nat i) (gastos self) @ drop (nat i + 1) (gastos self)
         \<and> length (gastos self') = length (gastos self) - 1
         \<and> (\<forall>j. j < nat i \<longrightarrow> gastos self' ! j = gastos self ! j)
         \<and> (\<forall>j. nat i \<le> j \<and> j < length (gastos self') \<longrightarrow>
               gastos self' ! j = gastos self ! (j + 1))
         \<and> (open_w (archivo_datos self) = None \<longrightarrow>
               r = None \<and>
               fs' = fs(archivo_datos self \<mapsto> Doc (JArr (map to_dict (gastos self')))))
         \<and> (\<forall>e. open_w (archivo_datos self) = Some e \<longrightarrow> r = Some e \<and> fs' = fs))"
    proof
      assume "0 \<le> i \<and> i < int (length (gastos self))"
      with False show "\<exists>r self' fs'. eliminar_gasto open_w i (self, fs) = (r, self', fs')
         \<and> archivo_datos self' = archivo_datos self
         \<and> gastos self' = take (nat i) (gastos self) @ drop (nat i + 1) (gastos self)
         \<and> length (gastos self') = length (gastos self) - 1
         \<and> (\<forall>j. j < nat i \<longrightarrow> gastos self' ! j = gastos self ! j)
         \<and> (\<forall>j. nat i \<le> j \<and> j < length (gastos self') \<longrightarrow>
               gastos self' ! j = gastos self ! (j + 1))
         \<and> (open_w (archivo_datos self) = None \<longrightarrow>
               r = None \<and>
               fs' = fs(archivo_datos self \<mapsto> Doc (JArr (map to_dict (gastos self')))))
         \<and> (\<forall>e. open_w (archivo_datos self) = Some e \<longrightarrow> r = Some e \<and> fs' = fs)"
        by (rule notE)
    qed
    show "\<not> (0 \<le> i \<and> i < int (length (gastos self))) \<longrightarrow>
        eliminar_gasto open_w i (self, fs) = (None, self, fs)"
      using noop by (rule_tac impI)
  qed
qed

theorem eliminar_gasto_index_witness:
  "(0 \<le> (1::int) \<and> (1::int) < int (length (gastos
       (ej_gestor [ej_gasto ''a'' 1 ''Comida'', ej_gasto ''b'' 2 ''Otros'', ej_gasto ''c'' 3 ''Salud'']))))
   \<and> ej_escribible (archivo_datos
       (ej_gestor [ej_gasto ''a'' 1 ''Comida'', ej_gasto ''b'' 2 ''Otros'', ej_gasto ''c'' 3 ''Salud''])) = None
   \<and> eliminar_gasto ej_escribible 1
       (ej_gestor [ej_gasto ''a'' 1 ''Comida'', ej_gasto ''b'' 2 ''Otros'', ej_gasto ''c'' 3 ''Salud''],
        Map.empty) =
       (None, ej_gestor [ej_gasto ''a'' 1 ''Comida'', ej_gasto ''c'' 3 ''Salud''],
        [''gastos_ana.json'' \<mapsto> Doc (JArr [ej_dict ''a'' 1 ''Comida'', ej_dict ''c'' 3 ''Salud''])])
   \<and> \<not> (0 \<le> (3::int) \<and> (3::int) < int (length (gastos
       (ej_gestor [ej_gasto ''a'' 1 ''Comida'', ej_gasto ''b'' 2 ''Otros'', ej_gasto ''c'' 3 ''Salud'']))))
   \<and> eliminar_gasto ej_escribible 3
       (ej_gestor [ej_gasto ''a'' 1 ''Comida'', ej_gasto ''b'' 2 ''Otros'', ej_gasto ''c'' 3 ''Salud''],
        Map.empty) =
       (None, ej_gestor [ej_gasto ''a'' 1 ''Comida'', ej_gasto ''b'' 2 ''Otros'', ej_gasto ''c'' 3 ''Salud''],
        Map.empty)
   \<and> \<not> (0 \<le> (-1::int) \<and> (-1::int) < int (length (gastos
       (ej_gestor [ej_gasto ''a'' 1 ''Comida'', ej_gasto ''b'' 2 ''Otros'', ej_gasto ''c'' 3 ''Salud'']))))
   \<and> eliminar_gasto ej_escribible (-1)
       (ej_gestor [ej_gasto ''a'' 1 ''Comida'', ej_gasto ''b'' 2 ''Otros'', ej_gasto ''c'' 3 ''Salud''],
        Map.empty) =
       (None, ej_gestor [ej_gasto ''a'' 1 ''Comida'', ej_gasto ''b'' 2 ''Otros'', ej_gasto ''c'' 3 ''Salud''],
        Map.empty)
   \<and> (0 \<le> (0::int) \<and> (0::int) < int (length (gastos (ej_gestor_ab [ej_gasto ''a'' 1 ''Comida'']))))
   \<and> ej_sin_dir (archivo_datos (ej_gestor_ab [ej_gasto ''a'' 1 ''Comida''])) = Some FileNotFoundError
   \<and> eliminar_gasto ej_sin_dir 0 (ej_gestor_ab [ej_gasto ''a'' 1 ''Comida''], Map.empty) =
       (Some FileNotFoundError, ej_gestor_ab [], Map.empty)"
proof -
  let ?g = "ej_gestor [ej_gasto ''a'' 1 ''Comida'', ej_gasto ''b'' 2 ''Otros'', ej_gasto ''c'' 3 ''Salud'']"
  have h1: "eliminar_gasto ej_escribible 1 (?g, Map.empty) =
       (None, ej_gestor [ej_gasto ''a'' 1 ''Comida'', ej_gasto ''c'' 3 ''Salud''],
        [''gastos_ana.json'' \<mapsto> Doc (JArr [ej_dict ''a'' 1 ''Comida'', ej_dict ''c'' 3 ''Salud''])])"
    by (simp add: eliminar_gasto_def Let_def pop_def guardar_datos_def to_dict_def)
  have h2: "eliminar_gasto ej_escribible 3 (?g, Map.empty) = (None, ?g, Map.empty)"
    by (simp add: eliminar_gasto_def)
  have h3: "eliminar_gasto ej_escribible (-1) (?g, Map.empty) = (None, ?g, Map.empty)"
    by (simp add: eliminar_gasto_def)
  have h4: "eliminar_gasto ej_sin_dir 0 (ej_gestor_ab [ej_gasto ''a'' 1 ''Comida''], Map.empty) =
       (Some FileNotFoundError, ej_gestor_ab [], Map.empty)"
    by (simp add: eliminar_gasto_def Let_def pop_def guardar_datos_def)
  show ?thesis
    using eliminar_gasto_index [of 1 ?g ej_escribible Map.empty]
      eliminar_gasto_index [of 3 ?g ej_escribible Map.empty]
      eliminar_gasto_index [of "-1" ?g ej_escribible Map.empty]
      eliminar_gasto_index [of 0 "ej_gestor_ab [ej_gasto ''a'' 1 ''Comida'']" ej_sin_dir Map.empty]
    by (simp add: h1 h2 h3 h4)
qed

text \<open>
  The claim as stated fails where the file cannot be written: for the user \<^verbatim>\<open>a/b\<close> in
  a working directory without the directory \<^verbatim>\<open>gastos_a\<close>, \<open>eliminar_gasto\<close> with a
  valid index removes the record from the ledger, raises \<^verbatim>\<open>FileNotFoundError\<close> and
  persists nothing.
\<close>

theorem eliminar_gasto_not_persisted:
  "eliminar_gasto ej_sin_dir 0 (ej_gestor_ab [ej_gasto ''cafe'' (7/2) ''Comida''], Map.empty) =
     (Some FileNotFoundError, ej_gestor_ab [], Map.empty)"
  by (simp add: eliminar_gasto_def Let_def pop_def guardar_datos_def)

subsection \<open>Loading and saving\<close>

lemma from_dict_to_dict: "Gasto_inv g \<Longrightarrow> from_dict ahora (to_dict g) = Inr g"
  by (simp add: from_dict_def to_dict_def Gasto_init_def Gasto_inv_def)

lemma from_dicts_to_dict:
  "list_all Gasto_inv gs \<Longrightarrow> from_dicts reloj i (map to_dict gs) = Inr gs"
  by (induction gs arbitrary: i) (simp_all add: from_dict_to_dict)

text \<open>
  A record with a falsy \<open>fecha\<close> is not an object of the class: converting its
  dictionary runs the constructor, which puts the clock reading in its place.
\<close>

lemma from_dict_to_dict_falsy:
  "\<not> Gasto_inv g \<Longrightarrow> from_dict ahora (to_dict g) = Inr (g\<lparr>fecha := JStr (strftime ahora)\<rparr>)"
  by (simp add: from_dict_def to_dict_def Gasto_init_def Gasto_inv_def)

text \<open>
  Claim C5, as the code has it. Let \<open>self\<close> be a ledger of the user \<open>usuario\<close> whose
  records are objects of class \<^verbatim>\<open>Gasto\<close>. If \<open>guardar_datos\<close> returns normally, then
  building a new \<^verbatim>\<open>GestorGastos\<close> for the same user over the resulting files, at any
  later time, gives back the same ledger: the same records in the same order, each with
  the same values of description, amount, category and timestamp.
\<close>

theorem guardar_cargar_roundtrip:
  assumes "archivo_datos self = ''gastos_'' @ usuario @ ''.json''"
      and "list_all Gasto_inv (gastos self)"
      and "guardar_datos open_w self fs = Inr fs'"
  shows "GestorGastos_init reloj usuario fs' = Inr self"
proof -
  have fs': "fs' = fs(archivo_datos self \<mapsto> Doc (JArr (map to_dict (gastos self))))"
    using assms(3) by (auto simp: guardar_datos_def split: option.splits)
  have "leer_datos reloj (Doc (JArr (map to_dict (gastos self)))) = Inr (gastos self)"
    using assms(2) by (simp add: leer_datos_def from_dicts_to_dict)
  then show ?thesis
    using assms(1) fs' by (simp add: GestorGastos_init_def cargar_datos_def)
qed

theorem guardar_cargar_roundtrip_witness:
  "archivo_datos (ej_gestor [ej_gasto ''a'' 1 ''Comida'', ej_gasto ''b'' (5/2) ''Otros'']) =
     ''gastos_'' @ ''ana'' @ ''.json''
   \<and> list_all Gasto_inv (gastos (ej_gestor [ej_gasto ''a'' 1 ''Comida'', ej_gasto ''b'' (5/2) ''Otros'']))
   \<and> guardar_datos ej_escribible
       (ej_gestor [ej_gasto ''a'' 1 ''Comida'', ej_gasto ''b'' (5/2) ''Otros'']) Map.empty =
       Inr [''gastos_ana.json'' \<mapsto> Doc (JArr [ej_dict ''a'' 1 ''Comida'', ej_dict ''b'' (5/2) ''Otros''])]
   \<and> GestorGastos_init (\<lambda>i. ej_ahora) ''ana''
       [''gastos_ana.json'' \<mapsto> Doc (JArr [ej_dict ''a'' 1 ''Comida'', ej_dict ''b'' (5/2) ''Otros''])] =
       Inr (ej_gestor [ej_gasto ''a'' 1 ''Comida'', ej_gasto ''b'' (5/2) ''Otros''])"
proof -
  let ?g = "ej_gestor [ej_gasto ''a'' 1 ''Comida'', ej_gasto ''b'' (5/2) ''Otros'']"
  have h1: "archivo_datos ?g = ''gastos_'' @ ''ana'' @ ''.json''" by simp
  have h2: "list_all Gasto_inv (gastos ?g)" by (simp add: Gasto_inv_def)
  have h3: "guardar_datos ej_escribible ?g Map.empty =
       Inr [''gastos_ana.json'' \<mapsto> Doc (JArr [ej_dict ''a'' 1 ''Comida'', ej_dict ''b'' (5/2) ''Otros''])]"
    by (simp add: guardar_datos_def to_dict_def)
  show ?thesis
    using h1 h2 h3 guardar_cargar_roundtrip [OF h1 h2 h3, of "\<lambda>i. ej_ahora"]
    by simp
qed

text \<open>
  The claim as stated fails where the file cannot be written: for the user \<^verbatim>\<open>a/b\<close> in
  a working directory without the directory \<^verbatim>\<open>gastos_a\<close>, \<open>guardar_datos\<close> raises
  \<^verbatim>\<open>FileNotFoundError\<close>, the files are as before, and a new \<^verbatim>\<open>GestorGastos\<close> for the
  same user is empty although the ledger held a record.
\<close>

theorem guardar_cargar_not_persisted:
  "guardar_datos ej_sin_dir (ej_gestor_ab [ej_gasto ''cafe'' (7/2) ''Comida'']) Map.empty =
     Inl FileNotFoundError
   \<and> GestorGastos_init (\<lambda>i. ej_ahora) ''a/b'' Map.empty = Inr (ej_gestor_ab [])
   \<and> ej_gestor_ab [] \<noteq> ej_gestor_ab [ej_gasto ''cafe'' (7/2) ''Comida'']"
  by (simp add: guardar_datos_def GestorGastos_init_def cargar_datos_def)

text \<open>
  Claim C8. Building a \<^verbatim>\<open>GestorGastos\<close> never raises, whatever the username, the
  clock and the file store: it always returns an object, whose file name is derived from
  the username. The ledger of this object is empty when the file does not exist, and
  also whenever reading the file, parsing it or converting its elements raises any
  exception.
\<close>

theorem GestorGastos_init_never_raises:
  "\<exists>self. GestorGastos_init reloj usuario fs = Inr self
     \<and> archivo_datos self = ''gastos_'' @ usuario @ ''.json''
     \<and> (fs (''gastos_'' @ usuario @ ''.json'') = None \<longrightarrow> gastos self = [])
     \<and> (\<forall>f e. fs (''gastos_'' @ usuario @ ''.json'') = Some f \<and> leer_datos reloj f = Inl e
            \<longrightarrow> gastos self = [])"
  by (auto simp: GestorGastos_init_def cargar_datos_def split: option.splits sum.splits)

theorem GestorGastos_init_never_raises_witness:
  "GestorGastos_init (\<lambda>i. ej_ahora) ''ana'' Map.empty = Inr (ej_gestor [])
   \<and> leer_datos (\<lambda>i. ej_ahora) (Unreadable JSONDecodeError) = Inl JSONDecodeError
   \<and> GestorGastos_init (\<lambda>i. ej_ahora) ''ana'' [''gastos_ana.json'' \<mapsto> Unreadable JSONDecodeError] =
       Inr (ej_gestor [])
   \<and> leer_datos (\<lambda>i. ej_ahora) (Doc (JInt 5)) = Inl TypeError
   \<and> GestorGastos_init (\<lambda>i. ej_ahora) ''ana'' [''gastos_ana.json'' \<mapsto> Doc (JInt 5)] =
       Inr (ej_gestor [])
   \<and> leer_datos (\<lambda>i. ej_ahora) (Doc (JObj [(''descripcion'', JStr ''a'')])) = Inl TypeError
   \<and> GestorGastos_init (\<lambda>i. ej_ahora) ''ana''
       [''gastos_ana.json'' \<mapsto> Doc (JObj [(''descripcion'', JStr ''a'')])] =
       Inr (ej_gestor [])"
proof -
  have l1: "leer_datos (\<lambda>i. ej_ahora) (Unreadable JSONDecodeError) = Inl JSONDecodeError"
    by (simp add: leer_datos_def)
  have l2: "leer_datos (\<lambda>i. ej_ahora) (Doc (JInt 5)) = Inl TypeError"
    by (simp add: leer_datos_def)
  have l3: "leer_datos (\<lambda>i. ej_ahora) (Doc (JObj [(''descripcion'', JStr ''a'')])) = Inl TypeError"
    by (simp add: leer_datos_def from_dict_def)
  show ?thesis
    using l1 l2 l3
      GestorGastos_init_never_raises [of "\<lambda>i. ej_ahora" "''ana''" Map.empty]
      GestorGastos_init_never_raises [of "\<lambda>i. ej_ahora" "''ana''"
        "[''gastos_ana.json'' \<mapsto> Unreadable JSONDecodeError]"]
      GestorGastos_init_never_raises [of "\<lambda>i. ej_ahora" "''ana''"
        "[''gastos_ana.json'' \<mapsto> Doc (JInt 5)]"]
      GestorGastos_init_never_raises [of "\<lambda>i. ej_ahora" "''ana''"
        "[''gastos_ana.json'' \<mapsto> Doc (JObj [(''descripcion'', JStr ''a'')])]"]
    by (simp add: GestorGastos_init_def cargar_datos_def)
qed

lemma from_dict_missing:
  "k \<in> {''descripcion'', ''monto'', ''categoria'', ''fecha''} \<Longrightarrow> k \<notin> set (map fst kvs) \<Longrightarrow>
   \<exists>e. from_dict ahora (JObj kvs) = Inl e"
  using map_of_None_keys [of kvs k]
  by (auto simp: from_dict_def split: sum.splits option.splits)

lemma from_dicts_fail:
  "d \<in> set ds \<Longrightarrow> (\<And>ahora. \<exists>e. from_dict ahora d = Inl e) \<Longrightarrow> \<exists>e. from_dicts reloj i ds = Inl e"
proof (induction ds arbitrary: i)
  case Nil
  then show ?case by simp
next
  case (Cons a ds)
  show ?case
  proof (cases "from_dict (reloj i) a")
    case (Inl e)
    then show ?thesis by simp
  next
    case (Inr g)
    with Cons.prems have "d \<in> set ds" by (metis Inl_Inr_False set_ConsD)
    then obtain e where "from_dicts reloj (Suc i) ds = Inl e"
      using Cons.IH Cons.prems(2) by blast
    with Inr show ?thesis by simp
  qed
qed

text \<open>
  Claim C10. If the file of the ledger holds a JSON list and one of its elements, at any
  position, is an object that lacks one of the four fields \<^verbatim>\<open>descripcion\<close>,
  \<^verbatim>\<open>monto\<close>, \<^verbatim>\<open>categoria\<close>, \<^verbatim>\<open>fecha\<close>, then the constructed ledger is empty: the
  well-formed records before (and after) that element are not kept.
\<close>

theorem cargar_datos_all_or_nothing:
  assumes "fs (''gastos_'' @ usuario @ ''.json'') = Some (Doc (JArr ds))"
      and "JObj kvs \<in> set ds"
      and "k \<in> {''descripcion'', ''monto'', ''categoria'', ''fecha''}"
      and "k \<notin> set (map fst kvs)"
  shows "GestorGastos_init reloj usuario fs =
           Inr \<lparr>archivo_datos = ''gastos_'' @ usuario @ ''.json'', gastos = []\<rparr>"
proof -
  have "\<exists>e. from_dict ahora (JObj kvs) = Inl e" for ahora
    using assms(3,4) by (rule from_dict_missing)
  with assms(2) obtain e where "from_dicts reloj 0 ds = Inl e"
    using from_dicts_fail by blast
  then have "leer_datos reloj (Doc (JArr ds)) = Inl e"
    by (simp add: leer_datos_def)
  with assms(1) show ?thesis
    by (simp add: GestorGastos_init_def cargar_datos_def)
qed

theorem cargar_datos_all_or_nothing_witness:
  "[''gastos_ana.json'' \<mapsto> Doc (JArr
       [ej_dict ''a'' 1 ''Comida'',
        JObj [(''descripcion'', JStr ''b''), (''monto'', JInt 2), (''categoria'', JStr ''Otros'')],
        ej_dict ''c'' 3 ''Salud''])] (''gastos_'' @ ''ana'' @ ''.json'') =
     Some (Doc (JArr
       [ej_dict ''a'' 1 ''Comida'',
        JObj [(''descripcion'', JStr ''b''), (''monto'', JInt 2), (''categoria'', JStr ''Otros'')],
        ej_dict ''c'' 3 ''Salud'']))
   \<and> JObj [(''descripcion'', JStr ''b''), (''monto'', JInt 2), (''categoria'', JStr ''Otros'')] \<in> set
       [ej_dict ''a'' 1 ''Comida'',
        JObj [(''descripcion'', JStr ''b''), (''monto'', JInt 2), (''categoria'', JStr ''Otros'')],
        ej_dict ''c'' 3 ''Salud'']
   \<and> ''fecha'' \<in> {''descripcion'', ''monto'', ''categoria'', ''fecha''}
   \<and> ''fecha'' \<notin> set (map fst
       [(''descripcion'', JStr ''b''), (''monto'', JInt 2), (''categoria'', JStr ''Otros'')])
   \<and> GestorGastos_init (\<lambda>i. ej_ahora) ''ana''
       [''gastos_ana.json'' \<mapsto> Doc (JArr
         [ej_dict ''a'' 1 ''Comida'',
          JObj [(''descripcion'', JStr ''b''), (''monto'', JInt 2), (''categoria'', JStr ''Otros'')],
          ej_dict ''c'' 3 ''Salud''])] =
       Inr (ej_gestor [])"
proof -
  let ?bad = "JObj [(''descripcion'', JStr ''b''), (''monto'', JInt 2), (''categoria'', JStr ''Otros'')]"
  let ?ds = "[ej_dict ''a'' 1 ''Comida'', ?bad, ej_dict ''c'' 3 ''Salud'']"
  let ?fs = "[''gastos_ana.json'' \<mapsto> Doc (JArr ?ds)]"
  show ?thesis
    using cargar_datos_all_or_nothing [of ?fs "''ana''" ?ds
        "[(''descripcion'', JStr ''b''), (''monto'', JInt 2), (''categoria'', JStr ''Otros'')]"
        "''fecha''" "\<lambda>i. ej_ahora"]
    by simp
qed


subsection \<open>Total\<close>

lemma is_double_0: "is_double 0"
  by (simp add: is_double_def round_double_def)


lemma dadd_exact: "is_double (a + b) \<Longrightarrow> dadd (Finite a) (Finite b) = Finite (a + b)"
  by (simp add: is_double_def)











subsection \<open>Categories\<close>

lemma py_eq_JStr: "py_eq (JStr a) (JStr b) = (a = b)"
  by (simp add: py_eq_def)

lemma py_set_add_JStr:
  "py_set_add (map JStr as) (JStr c) = map JStr (if c \<in> set as then as else as @ [c])"
  by (auto simp: py_set_add_def list_ex_iff py_eq_JStr)

lemma foldl_py_set_add_JStr:
  "distinct as \<Longrightarrow>
   \<exists>bs. foldl py_set_add (map JStr as) (map JStr cs) = map JStr bs
      \<and> set bs = set as \<union> set cs \<and> distinct bs"
proof (induction cs arbitrary: as)
  case Nil
  then show ?case by auto
next
  case (Cons c cs)
  let ?as' = "if c \<in> set as then as else as @ [c]"
  have "distinct ?as'" using Cons.prems by simp
  from Cons.IH [OF this] obtain bs where
    "foldl py_set_add (map JStr ?as') (map JStr cs) = map JStr bs"
    "set bs = set ?as' \<union> set cs" "distinct bs"
    by blast
  then show ?case
    by (intro exI [of _ bs]) (auto simp: py_set_add_JStr split: if_splits)
qed

lemma py_set_JStr:
  "\<exists>bs. py_set (map JStr cs) = Inr (map JStr bs) \<and> set bs = set cs \<and> distinct bs"
  using foldl_py_set_add_JStr [of "[]" cs]
  by (simp add: py_set_def list_all_iff image_iff)

lemma sort_short: "length xs \<le> 1 \<Longrightarrow> sort xs = xs"
  by (cases xs) (auto simp: length_Suc_conv)

lemma py_sorted_JStr: "py_sorted orden_nan (map JStr bs) = Inr (map JStr (sort bs))"
  by (auto simp: py_sorted_def sort_short list_all_iff comp_def)

text \<open>
  Claim C7. For a ledger whose categories are the strings \<open>cs\<close> (one per record, in
  the order of the records), \<open>obtener_categorias\<close> returns the set of these strings as
  a list: every category that occurs, each once, in ascending lexicographic order of the
  strings (the order of \<^verbatim>\<open>sorted\<close> on \<^verbatim>\<open>str\<close>).
\<close>

theorem obtener_categorias_sorted_distinct:
  assumes "map categoria (gastos self) = map JStr cs"
  shows "\<exists>out. obtener_categorias orden_nan self = Inr (map JStr out)
           \<and> out = sorted_list_of_set (set cs)
           \<and> set out = set cs \<and> distinct out \<and> sorted out"
proof -
  obtain bs where bs: "py_set (map JStr cs) = Inr (map JStr bs)" "set bs = set cs" "distinct bs"
    using py_set_JStr by blast
  have "sort bs = sorted_list_of_set (set bs)"
    using bs(3) by (simp add: sorted_list_of_set_sort_remdups distinct_remdups_id)
  with bs assms show ?thesis
    by (simp add: obtener_categorias_def py_sorted_JStr)
qed

theorem obtener_categorias_sorted_distinct_witness:
  "map categoria (gastos (ej_gestor
      [ej_gasto ''a'' 1 ''Comida'', ej_gasto ''b'' 2 ''Otros'', ej_gasto ''c'' 3 ''Comida'']))
     = map JStr [''Comida'', ''Otros'', ''Comida'']
   \<and> obtener_categorias (\<lambda>xs. xs) (ej_gestor
      [ej_gasto ''a'' 1 ''Comida'', ej_gasto ''b'' 2 ''Otros'', ej_gasto ''c'' 3 ''Comida''])
     = Inr (map JStr (sorted_list_of_set (set [''Comida'', ''Otros'', ''Comida''])))
   \<and> obtener_categorias (\<lambda>xs. xs) (ej_gestor
      [ej_gasto ''a'' 1 ''Comida'', ej_gasto ''b'' 2 ''Otros'', ej_gasto ''c'' 3 ''Comida''])
     = Inr [JStr ''Comida'', JStr ''Otros'']"
proof -
  let ?g = "ej_gestor
      [ej_gasto ''a'' 1 ''Comida'', ej_gasto ''b'' 2 ''Otros'', ej_gasto ''c'' 3 ''Comida'']"
  have h: "map categoria (gastos ?g) = map JStr [''Comida'', ''Otros'', ''Comida'']"
    by simp
  have v: "obtener_categorias (\<lambda>xs. xs) ?g = Inr [JStr ''Comida'', JStr ''Otros'']"
    by (simp add: obtener_categorias_def py_set_def py_set_add_def py_eq_def py_sorted_def)
  from obtener_categorias_sorted_distinct [OF h, of "\<lambda>xs. xs"] h v show ?thesis
    by auto
qed

end
